theory Spec2Isabelle
  imports
    Main
    "HOL-Library.Word"
    "HOL-Library.Sublist"
    "HOL-Library.Char_ord"
    "HOL-Library.List_Lexorder"
    "HOL-Library.Sorting_Algorithms"
begin

unbundle bit_operations_syntax

section \<open>zip-smith: a shallow embedding of \<^verbatim>\<open>src/index.ts\<close>\<close>

text \<open>
  The worker answers a POST whose JSON body lists files (url and filename), downloads
  them, packs them into one ZIP archive and caches the archive under a key derived from
  the file list. The functions below follow \<^verbatim>\<open>src/index.ts\<close> one by one and keep its
  names.

  Conventions of the embedding.
  \<^item> A JavaScript string is the list of bytes of its UTF-8 encoding (\<^typ>\<open>string\<close>), so
    \<^verbatim>\<open>TextEncoder.encode\<close> is the identity on the bytes.
  \<^item> An \<^verbatim>\<open>ArrayBuffer\<close> is a list of bytes.
  \<^item> A thrown JavaScript error is a value \<open>Error message\<close>; a computation that may
    throw returns a sum whose left side is the error. Everything this program can catch
    is an instance of \<^verbatim>\<open>Error\<close>.
  \<^item> What the runtime decides (the URL parser, the collation behind
    \<^verbatim>\<open>localeCompare\<close>, the remote servers, the ZIP library, the faults of the Cache API
    and the clock) is a field of the record \<open>platform\<close>.
  \<^item> The effects a claim can observe are returned with the result: the URLs passed to
    the global \<^verbatim>\<open>fetch\<close>, in call order, and the cache after the background task.
    Console output is not modelled.
\<close>

subsection \<open>Strings\<close>

type_synonym byte = "8 word"
type_synonym bytes = "byte list"

datatype js_error = Error (message: string)

definition startsWith :: "string \<Rightarrow> string \<Rightarrow> bool" where
  "startsWith s p = (take (length p) s = p)"

definition endsWith :: "string \<Rightarrow> string \<Rightarrow> bool" where
  "endsWith s p = (length p \<le> length s \<and> drop (length s - length p) s = p)"

text \<open>
  \<^verbatim>\<open>String.prototype.toLowerCase\<close>, on the ASCII letters. The program uses it only in
  \<^verbatim>\<open>filename.toLowerCase().endsWith('.jar')\<close>, and the only characters that lower-case
  to \<^verbatim>\<open>j\<close>, \<^verbatim>\<open>a\<close> and \<^verbatim>\<open>r\<close> are these letters themselves and their capitals.
\<close>

definition lowerChar :: "char \<Rightarrow> char" where
  "lowerChar c =
     (if CHR ''A'' \<le> c \<and> c \<le> CHR ''Z'' then char_of (of_char c + (32 :: nat)) else c)"

definition toLowerCase :: "string \<Rightarrow> string" where
  "toLowerCase s = map lowerChar s"

text \<open>\<^verbatim>\<open>Array.prototype.join\<close>.\<close>

fun join :: "string \<Rightarrow> string list \<Rightarrow> string" where
  "join sep [] = []"
| "join sep [x] = x"
| "join sep (x # y # ys) = x @ sep @ join sep (y # ys)"

text \<open>A number in a template literal: its decimal digits.\<close>

definition digitChar :: "nat \<Rightarrow> char" where
  "digitChar d = char_of (48 + d)"

fun decimal :: "nat \<Rightarrow> string" where
  "decimal n = (if n < 10 then [digitChar n] else decimal (n div 10) @ [digitChar (n mod 10)])"

declare decimal.simps [simp del]

text \<open>\<^verbatim>\<open>b.toString(16).padStart(2, '0')\<close> for a byte \<open>b\<close>.\<close>

definition hexDigit :: "nat \<Rightarrow> char" where
  "hexDigit d = (if d < 10 then char_of (48 + d) else char_of (87 + d))"

definition hexByte :: "byte \<Rightarrow> string" where
  "hexByte b = [hexDigit (unat b div 16), hexDigit (unat b mod 16)]"

definition encode :: "string \<Rightarrow> bytes" where
  "encode s = map of_char s"

subsection \<open>SHA-256 (\<^verbatim>\<open>crypto.subtle.digest('SHA-256', data)\<close>)\<close>

text \<open>
  The digest of FIPS 180-4. A 32-bit word is an \<^typ>\<open>int\<close> in \<open>{0..<2^32}\<close>, with the
  reduction modulo \<open>2^32\<close> written out. The round constants \<open>K\<close> and the initial hash
  value \<open>H0\<close> are those of the standard, in decimal.
\<close>

definition add32 :: "int \<Rightarrow> int \<Rightarrow> int" where
  "add32 x y = (x + y) mod 4294967296"

definition rotr :: "nat \<Rightarrow> int \<Rightarrow> int" where
  "rotr n x = x div 2 ^ n + (x mod 2 ^ n) * 2 ^ (32 - n)"

definition Ch :: "int \<Rightarrow> int \<Rightarrow> int \<Rightarrow> int" where
  "Ch x y z = (x AND y) XOR ((4294967295 - x) AND z)"

definition Maj :: "int \<Rightarrow> int \<Rightarrow> int \<Rightarrow> int" where
  "Maj x y z = (x AND y) XOR (x AND z) XOR (y AND z)"

definition Sigma0 :: "int \<Rightarrow> int" where
  "Sigma0 x = rotr 2 x XOR rotr 13 x XOR rotr 22 x"

definition Sigma1 :: "int \<Rightarrow> int" where
  "Sigma1 x = rotr 6 x XOR rotr 11 x XOR rotr 25 x"

definition sigma0 :: "int \<Rightarrow> int" where
  "sigma0 x = rotr 7 x XOR rotr 18 x XOR x div 2 ^ 3"

definition sigma1 :: "int \<Rightarrow> int" where
  "sigma1 x = rotr 17 x XOR rotr 19 x XOR x div 2 ^ 10"

definition K :: "int list" where
  "K = [1116352408, 1899447441, 3049323471, 3921009573, 961987163, 1508970993,
    2453635748, 2870763221, 3624381080, 310598401, 607225278, 1426881987,
    1925078388, 2162078206, 2614888103, 3248222580, 3835390401, 4022224774,
    264347078, 604807628, 770255983, 1249150122, 1555081692, 1996064986,
    2554220882, 2821834349, 2952996808, 3210313671, 3336571891, 3584528711,
    113926993, 338241895, 666307205, 773529912, 1294757372, 1396182291,
    1695183700, 1986661051, 2177026350, 2456956037, 2730485921, 2820302411,
    3259730800, 3345764771, 3516065817, 3600352804, 4094571909, 275423344,
    430227734, 506948616, 659060556, 883997877, 958139571, 1322822218,
    1537002063, 1747873779, 1955562222, 2024104815, 2227730452, 2361852424,
    2428436474, 2756734187, 3204031479, 3329325298]"

type_synonym hstate = "int \<times> int \<times> int \<times> int \<times> int \<times> int \<times> int \<times> int"

definition H0 :: hstate where
  "H0 = (1779033703, 3144134277, 1013904242, 2773480762,
         1359893119, 2600822924, 528734635, 1541459225)"

text \<open>One round: \<open>t1\<close> and \<open>t2\<close> are the two temporaries of the standard.\<close>

fun shuffle :: "int \<Rightarrow> int \<Rightarrow> hstate \<Rightarrow> hstate" where
  "shuffle t1 t2 (a, b, c, d, e, f, g, h) = (add32 t1 t2, a, b, c, add32 d t1, e, f, g)"

fun step :: "hstate \<Rightarrow> int \<Rightarrow> int \<Rightarrow> hstate" where
  "step (a, b, c, d, e, f, g, h) k w =
     shuffle (add32 (add32 (add32 (add32 h (Sigma1 e)) (Ch e f g)) k) w)
       (add32 (Sigma0 a) (Maj a b c)) (a, b, c, d, e, f, g, h)"

text \<open>
  The 64 rounds over a sliding window of the message schedule: the window holds the
  sixteen latest schedule words, the oldest first.
\<close>

fun rounds :: "hstate \<Rightarrow> int list \<Rightarrow> int list \<Rightarrow> hstate" where
  "rounds s ws [] = s"
| "rounds s ws (k # ks) =
     rounds (step s k (ws ! 0))
       (tl ws @ [add32 (add32 (add32 (sigma1 (ws ! 14)) (ws ! 9)) (sigma0 (ws ! 1))) (ws ! 0)])
       ks"

fun add_state :: "hstate \<Rightarrow> hstate \<Rightarrow> hstate" where
  "add_state (a, b, c, d, e, f, g, h) (a', b', c', d', e', f', g', h') =
     (add32 a a', add32 b b', add32 c c', add32 d d',
      add32 e e', add32 f f', add32 g g', add32 h h')"

definition compress :: "hstate \<Rightarrow> int list \<Rightarrow> hstate" where
  "compress h ws = add_state h (rounds h ws K)"

fun blocks :: "hstate \<Rightarrow> int list \<Rightarrow> hstate" where
  "blocks h [] = h"
| "blocks h (w # ws) = blocks (compress h (take 16 (w # ws))) (drop 16 (w # ws))"

fun be32 :: "bytes \<Rightarrow> int list" where
  "be32 (a # b # c # d # r) =
     (uint a * 16777216 + uint b * 65536 + uint c * 256 + uint d) # be32 r"
| "be32 r = []"

definition be64 :: "nat \<Rightarrow> bytes" where
  "be64 n = map (\<lambda>i. of_nat (n div 2 ^ (8 * (7 - i)) mod 256)) [0, 1, 2, 3, 4, 5, 6, 7]"

definition pad :: "bytes \<Rightarrow> bytes" where
  "pad m = m @ [0x80] @ replicate ((119 - length m mod 64) mod 64) 0 @ be64 (8 * length m)"

definition wordBytes :: "int \<Rightarrow> bytes" where
  "wordBytes w = [of_int (w div 16777216), of_int (w div 65536 mod 256),
                  of_int (w div 256 mod 256), of_int (w mod 256)]"

fun stateBytes :: "hstate \<Rightarrow> bytes" where
  "stateBytes (a, b, c, d, e, f, g, h) = concat (map wordBytes [a, b, c, d, e, f, g, h])"

definition sha256 :: "bytes \<Rightarrow> bytes" where
  "sha256 m = stateBytes (blocks H0 (be32 (pad m)))"

subsection \<open>Requests, responses and the platform\<close>

text \<open>
  The body as the interface \<^verbatim>\<open>JarRequest\<close> types it. A property can be absent
  (\<open>None\<close>): the code tests \<^verbatim>\<open>!body.files\<close>, \<^verbatim>\<open>!file.url\<close> and \<^verbatim>\<open>!file.filename\<close>.
  \<open>files = None\<close> stands for a \<^verbatim>\<open>files\<close> property that is absent or not an array.
\<close>

record json_file =
  url_prop :: "string option"
  filename_prop :: "string option"

record jar_request =
  files :: "json_file list option"
  zipFilename :: "string option"

text \<open>\<open>json\<close> is the outcome of \<^verbatim>\<open>await request.json()\<close>, which rejects when the body is not JSON.\<close>

record request =
  req_method :: string
  json :: "js_error + jar_request"

datatype payload = NoBody | Text string | Binary bytes

record response =
  status :: nat
  headers :: "(string \<times> string) list"
  body :: payload

text \<open>
  \<open>headers\<close> holds the headers the code sets, under the names it writes.
  \<^verbatim>\<open>Headers.get\<close> finds a header whatever the case of its name.
\<close>

definition headers_get :: "(string \<times> string) list \<Rightarrow> string \<Rightarrow> string option" where
  "headers_get hs name = map_of (map (\<lambda>(k, v). (toLowerCase k, v)) hs) (toLowerCase name)"

text \<open>An entry of \<^verbatim>\<open>validFiles\<close>, and an entry of \<^verbatim>\<open>downloadedFiles\<close>.\<close>

record valid_file =
  url :: string
  filename :: string

record downloaded =
  dl_filename :: string
  dl_data :: bytes

text \<open>The response of a remote server to the global \<^verbatim>\<open>fetch\<close>, or its rejection.\<close>

record remote_response =
  r_status :: nat
  statusText :: string
  arrayBuffer :: "js_error + bytes"

datatype fetch_outcome = Rejected js_error | Resolved remote_response

definition ok :: "remote_response \<Rightarrow> bool" where
  "ok r = (200 \<le> r_status r \<and> r_status r \<le> 299)"

text \<open>The Cache API: a store from request URLs to responses, and the calls that can throw.\<close>

record cached_response =
  c_body :: bytes
  c_headers :: "(string \<times> string) list"

type_synonym cache = "string \<rightharpoonup> cached_response"

datatype cache_call = LookupOpen | LookupMatch | LookupRead | StoreOpen | StorePut

record platform =
  new_URL :: "string \<Rightarrow> string option"
  localeCompare :: "string comparator"
  global_fetch :: "string \<Rightarrow> fetch_outcome"
  zip_writer :: "(string \<times> bytes) list \<Rightarrow> js_error + bytes"
  cache_fault :: "cache_call \<Rightarrow> js_error option"
  now :: nat

text \<open>
  \<^item> \<open>new_URL P s\<close> is the \<^verbatim>\<open>protocol\<close> of \<^verbatim>\<open>new URL(s)\<close>, or \<open>None\<close> when the
    constructor throws.
  \<^item> \<open>localeCompare P\<close> is the comparison of \<^verbatim>\<open>a.localeCompare(b)\<close>: \<open>Less\<close> for a
    negative result, \<open>Equiv\<close> for zero, \<open>Greater\<close> for a positive one.
  \<^item> \<open>zip_writer P members\<close> is the archive a \<^verbatim>\<open>ZipWriter\<close> returns from \<^verbatim>\<open>close()\<close>
    after \<^verbatim>\<open>add(name, data)\<close> was called for each member in this order, or the error
    the library throws.
  \<^item> \<open>cache_fault P c\<close> is the error the Cache API throws at the call \<open>c\<close>, if any.
\<close>

record 'a run =
  result :: 'a
  fetched :: "string list"
  stored :: cache

subsection \<open>Validation (\<^verbatim>\<open>handlePostRequest\<close>, lines 51 to 122)\<close>

text \<open>Every 400 of the source is built the same way: a text, the status and one header.\<close>

definition bad_request :: "string \<Rightarrow> response" where
  "bad_request msg =
     \<lparr>status = 400, headers = [(''Access-Control-Allow-Origin'', ''*'')], body = Text msg\<rparr>"

definition allowedPrefixes :: "string list" where
  "allowedPrefixes =
     [''https://github.com/EssentialsX/Essentials/'', ''https://ci.ender.zone/job/EssentialsX/'']"

definition isAllowedSource :: "string \<Rightarrow> bool" where
  "isAllowedSource u = list_ex (\<lambda>prefix. startsWith u prefix) allowedPrefixes"

text \<open>Lines 108 to 110: the filename that is pushed to \<^verbatim>\<open>validFiles\<close>.\<close>

definition jarFilename :: "string \<Rightarrow> string" where
  "jarFilename name = (if endsWith (toLowerCase name) ''.jar'' then name else name @ ''.jar'')"

text \<open>
  The loop of lines 62 to 113, with \<^verbatim>\<open>validFiles\<close> as an accumulator. \<open>Inl\<close> is a
  \<^verbatim>\<open>return\<close> from inside the loop. An absent property and the empty string are the two
  falsy values a string property can have.
\<close>

fun validate :: "platform \<Rightarrow> json_file list \<Rightarrow> valid_file list \<Rightarrow> response + valid_file list" where
  "validate P [] validFiles = Inr validFiles"
| "validate P (f # rest) validFiles =
     (case url_prop f of
        None \<Rightarrow> Inl (bad_request ''Each file must have both url and filename properties'')
      | Some u \<Rightarrow>
     (case filename_prop f of
        None \<Rightarrow> Inl (bad_request ''Each file must have both url and filename properties'')
      | Some name \<Rightarrow>
          if u = [] \<or> name = []
          then Inl (bad_request ''Each file must have both url and filename properties'')
          else
            (case new_URL P u of
               None \<Rightarrow> Inl (bad_request (''Invalid URL format: '' @ u))
             | Some protocol \<Rightarrow>
                 if protocol \<noteq> ''http:'' \<and> protocol \<noteq> ''https:''
                 then Inl (bad_request (''Invalid URL protocol: '' @ u))
                 else if \<not> isAllowedSource u
                 then Inl (bad_request
                   (''URL must start with one of the allowed EssentialsX sources: '' @
                    join '', '' allowedPrefixes @ ''. Got: '' @ u))
                 else validate P rest
                   (validFiles @ [\<lparr>url = u, filename = jarFilename name\<rparr>]))))"

subsection \<open>The cache key and the ETag\<close>

definition hex :: "bytes \<Rightarrow> string" where
  "hex bs = concat (map hexByte bs)"

definition generateCacheKey :: "string list \<Rightarrow> string" where
  "generateCacheKey urls = hex (sha256 (encode (join ''|'' urls)))"

definition generateETag :: "bytes \<Rightarrow> string" where
  "generateETag zipData = take 16 (hex (sha256 zipData))"

text \<open>
  Lines 125 and 126. \<^verbatim>\<open>Array.prototype.sort\<close> is stable, and so is \<^const>\<open>sort\<close>; the
  comparison looks at the url only.
\<close>

definition sortedFiles :: "platform \<Rightarrow> valid_file list \<Rightarrow> valid_file list" where
  "sortedFiles P validFiles = sort (key url (localeCompare P)) validFiles"

definition serialized :: "platform \<Rightarrow> valid_file list \<Rightarrow> string list" where
  "serialized P validFiles = map (\<lambda>f. url f @ ''|'' @ filename f) (sortedFiles P validFiles)"

definition cacheKey :: "platform \<Rightarrow> valid_file list \<Rightarrow> string" where
  "cacheKey P validFiles = generateCacheKey (serialized P validFiles)"

subsection \<open>The bundle cache (\<^verbatim>\<open>getCachedZip\<close>, \<^verbatim>\<open>cacheZip\<close>)\<close>

text \<open>
  \<^verbatim>\<open>CachedZipData\<close>. Its \<^verbatim>\<open>timestamp\<close>, parsed from a header, is read by no caller and
  is left out.
\<close>

record cached_zip_data =
  data :: bytes
  etag :: string

definition cacheRequest :: "string \<Rightarrow> string" where
  "cacheRequest k = ''https://jar-proxy.cache/zip/'' @ k"

text \<open>The \<^verbatim>\<open>try\<close> block of \<^verbatim>\<open>getCachedZip\<close>, and the function with its \<^verbatim>\<open>catch\<close>.\<close>

definition getCachedZip_try :: "platform \<Rightarrow> cache \<Rightarrow> string \<Rightarrow> js_error + cached_zip_data option" where
  "getCachedZip_try P C k =
     (case cache_fault P LookupOpen of Some e \<Rightarrow> Inl e | None \<Rightarrow>
      case cache_fault P LookupMatch of Some e \<Rightarrow> Inl e | None \<Rightarrow>
      case C (cacheRequest k) of None \<Rightarrow> Inr None | Some r \<Rightarrow>
      case cache_fault P LookupRead of Some e \<Rightarrow> Inl e | None \<Rightarrow>
        Inr (Some \<lparr>data = c_body r,
                   etag = (case headers_get (c_headers r) ''etag'' of
                             None \<Rightarrow> [] | Some t \<Rightarrow> t)\<rparr>))"

definition getCachedZip :: "platform \<Rightarrow> cache \<Rightarrow> string \<Rightarrow> cached_zip_data option" where
  "getCachedZip P C k = (case getCachedZip_try P C k of Inl error \<Rightarrow> None | Inr found \<Rightarrow> found)"

text \<open>The \<^verbatim>\<open>try\<close> block of \<^verbatim>\<open>cacheZip\<close>, and the function with its \<^verbatim>\<open>catch\<close>.\<close>

definition cacheZip_try :: "platform \<Rightarrow> cache \<Rightarrow> string \<Rightarrow> bytes \<Rightarrow> string \<Rightarrow> js_error + cache" where
  "cacheZip_try P C k zipData tag =
     (case cache_fault P StoreOpen of Some e \<Rightarrow> Inl e | None \<Rightarrow>
      case cache_fault P StorePut of Some e \<Rightarrow> Inl e | None \<Rightarrow>
        Inr (C(cacheRequest k \<mapsto>
          \<lparr>c_body = zipData,
           c_headers = [(''Content-Type'', ''application/zip''), (''etag'', tag),
                        (''x-timestamp'', decimal (now P)),
                        (''Cache-Control'', ''public, max-age=31536000, immutable'')]\<rparr>)))"

definition cacheZip :: "platform \<Rightarrow> cache \<Rightarrow> string \<Rightarrow> bytes \<Rightarrow> string \<Rightarrow> cache" where
  "cacheZip P C k zipData tag =
     (case cacheZip_try P C k zipData tag of Inl error \<Rightarrow> C | Inr C' \<Rightarrow> C')"

subsection \<open>Fetching and packing (\<^verbatim>\<open>createZipFromFiles\<close>, \<^verbatim>\<open>createZip\<close>)\<close>

text \<open>
  The asynchronous function of lines 203 to 217, run for one file: \<open>Inl\<close> is a rejected
  promise and \<open>Inr\<close> a fulfilled one.
\<close>

definition download :: "platform \<Rightarrow> valid_file \<Rightarrow> js_error + downloaded" where
  "download P f =
     (case global_fetch P (url f) of
        Rejected e \<Rightarrow> Inl e
      | Resolved r \<Rightarrow>
          if \<not> ok r
          then Inl (Error (''Failed to download '' @ url f @ '': '' @ decimal (r_status r) @
                           '' '' @ statusText r))
          else (case arrayBuffer r of
                  Inl e \<Rightarrow> Inl e
                | Inr d \<Rightarrow> Inr \<lparr>dl_filename = filename f, dl_data = d\<rparr>))"

text \<open>
  \<^verbatim>\<open>zipWriter.add\<close> is called for every file while the array is mapped, so in the
  order of the list; then the writer is closed.
\<close>

definition createZip :: "platform \<Rightarrow> downloaded list \<Rightarrow> js_error + bytes" where
  "createZip P fs = zip_writer P (map (\<lambda>f. (dl_filename f, dl_data f)) fs)"

text \<open>
  \<^verbatim>\<open>Promise.allSettled\<close> over the mapped array: the global \<^verbatim>\<open>fetch\<close> is called once per
  file, in the order of the list, whatever the other downloads do. The second component
  is the list of the URLs fetched.
\<close>

definition createZipFromFiles :: "platform \<Rightarrow> valid_file list \<Rightarrow> (js_error + bytes) \<times> string list" where
  "createZipFromFiles P fs =
     (let downloads = map (download P) fs;
          failed = filter isl downloads
      in (if length failed > 0
          then Inl (Error (''Failed to download some files: '' @
                           join '', '' (map (\<lambda>r. message (projl r)) failed)))
          else createZip P (map projr (filter (\<lambda>r. \<not> isl r) downloads)),
          map url fs))"

subsection \<open>Responses and the two handlers\<close>

definition createZipResponse :: "bytes \<Rightarrow> string \<Rightarrow> string option \<Rightarrow> response" where
  "createZipResponse zipData tag name =
     (let zipName = (case name of None \<Rightarrow> ''jars.zip''
                     | Some n \<Rightarrow> if n = [] then ''jars.zip'' else n)
      in \<lparr>status = 200,
          headers = [(''Content-Type'', ''application/zip''),
                     (''Content-Disposition'',
                      ''attachment; filename='' @ [CHR 0x22] @ zipName @ [CHR 0x22]),
                     (''ETag'', tag),
                     (''Cache-Control'', ''public, max-age=31536000, immutable''),
                     (''Access-Control-Allow-Origin'', ''*'')],
          body = Binary zipData\<rparr>)"

text \<open>
  \<^verbatim>\<open>handlePostRequest\<close>. \<open>Inl\<close> in the result is an error thrown out of the function.
  \<open>C\<close> is the cache when the request arrives; \<open>stored\<close> is the cache once the task
  given to \<^verbatim>\<open>ctx.waitUntil\<close> has run.
\<close>

definition handlePostRequest :: "platform \<Rightarrow> cache \<Rightarrow> request \<Rightarrow> (js_error + response) run" where
  "handlePostRequest P C request =
     (case json request of
        Inl e \<Rightarrow> \<lparr>result = Inl e, fetched = [], stored = C\<rparr>
      | Inr b \<Rightarrow>
     (case files b of
        None \<Rightarrow> \<lparr>result = Inr (bad_request ''Invalid request: files array is required''),
                  fetched = [], stored = C\<rparr>
      | Some fs \<Rightarrow>
          if length fs = 0
          then \<lparr>result = Inr (bad_request ''Invalid request: files array is required''),
                fetched = [], stored = C\<rparr>
          else
     (case validate P fs [] of
        Inl r \<Rightarrow> \<lparr>result = Inr r, fetched = [], stored = C\<rparr>
      | Inr validFiles \<Rightarrow>
          if length validFiles = 0
          then \<lparr>result = Inr (bad_request ''No valid files provided''),
                fetched = [], stored = C\<rparr>
          else
     (case getCachedZip P C (cacheKey P validFiles) of
        Some cached \<Rightarrow>
          \<lparr>result = Inr (createZipResponse (data cached) (etag cached) (zipFilename b)),
           fetched = [], stored = C\<rparr>
      | None \<Rightarrow>
     (case createZipFromFiles P validFiles of
        (Inl e, urls) \<Rightarrow> \<lparr>result = Inl e, fetched = urls, stored = C\<rparr>
      | (Inr zipData, urls) \<Rightarrow>
          \<lparr>result = Inr (createZipResponse zipData (generateETag zipData) (zipFilename b)),
           fetched = urls,
           stored = cacheZip P C (cacheKey P validFiles) zipData (generateETag zipData)\<rparr>)))))"

text \<open>The exported \<^verbatim>\<open>fetch\<close> handler of the worker.\<close>

definition fetch :: "platform \<Rightarrow> cache \<Rightarrow> request \<Rightarrow> response run" where
  "fetch P C request =
     (if req_method request = ''OPTIONS''
      then \<lparr>result = \<lparr>status = 200,
                       headers = [(''Access-Control-Allow-Origin'', ''*''),
                                  (''Access-Control-Allow-Methods'', ''GET, POST, OPTIONS''),
                                  (''Access-Control-Allow-Headers'', ''Content-Type'')],
                       body = NoBody\<rparr>,
            fetched = [], stored = C\<rparr>
      else if req_method request = ''POST''
      then (let r = handlePostRequest P C request in
            case result r of
              Inr response \<Rightarrow> \<lparr>result = response, fetched = fetched r, stored = stored r\<rparr>
            | Inl error \<Rightarrow>
                \<lparr>result = \<lparr>status = 500,
                            headers = [(''Access-Control-Allow-Origin'', ''*'')],
                            body = Text (''Internal Server Error: '' @ message error)\<rparr>,
                 fetched = fetched r, stored = stored r\<rparr>)
      else \<lparr>result = \<lparr>status = 405, headers = [], body = Text ''Method not allowed''\<rparr>,
            fetched = [], stored = C\<rparr>)"

subsection \<open>Example inputs\<close>

text \<open>
  A platform for the examples: every server answers 200 with one byte, the length of
  the URL it was asked for; the Cache API never fails; strings are compared byte by
  byte; and the archive of the stand-in ZIP writer is the concatenation of the members'
  data. \<open>demo_URL\<close> gives the protocol the URL parser reports for the URLs used in the
  examples.
\<close>

definition demo_URL :: "string \<Rightarrow> string option" where
  "demo_URL s =
     (if startsWith s ''https://'' then Some ''https:''
      else if startsWith s ''http://'' then Some ''http:'' else None)"

definition demo :: platform where
  "demo = \<lparr>new_URL = demo_URL, localeCompare = default,
            global_fetch = (\<lambda>u. Resolved \<lparr>r_status = 200, statusText = ''OK'',
                                           arrayBuffer = Inr [of_nat (length u)]\<rparr>),
            zip_writer = (\<lambda>members. Inr (concat (map snd members))),
            cache_fault = (\<lambda>c. None), now = 0\<rparr>"

text \<open>A platform without network, one with two failing downloads, one whose cache is down.\<close>

definition essentials :: string where
  "essentials = ''https://github.com/EssentialsX/Essentials/releases/download/2.21.0/EssentialsX-2.21.0.jar''"

definition chat :: string where
  "chat = ''https://ci.ender.zone/job/EssentialsX/lastSuccessfulBuild/artifact/jars/EssentialsXChat.jar''"

definition jenkins :: string where
  "jenkins = ''https://ci.ender.zone/job/EssentialsX/EssX.jar''"

definition elsewhere :: string where
  "elsewhere = ''https://example.com/plugin.jar''"

definition offline :: platform where
  "offline = demo\<lparr>global_fetch := (\<lambda>u. Rejected (Error ''Network connection lost.''))\<rparr>"

definition flaky :: platform where
  "flaky = demo\<lparr>global_fetch := (\<lambda>u.
     if u = chat
     then Resolved \<lparr>r_status = 404, statusText = ''Not Found'', arrayBuffer = Inr []\<rparr>
     else if u = jenkins then Rejected (Error ''Network connection lost.'')
     else Resolved \<lparr>r_status = 200, statusText = ''OK'', arrayBuffer = Inr [7]\<rparr>)\<rparr>"

definition cache_down :: platform where
  "cache_down = demo\<lparr>cache_fault := (\<lambda>c. Some (Error ''cache unavailable''))\<rparr>"

definition store_down :: "cache_call \<Rightarrow> js_error option" where
  "store_down c = (if c = StoreOpen \<or> c = StorePut then Some (Error ''quota exceeded'') else None)"

text \<open>
  Two requests for the same two files in the two orders, a request for one file whose
  name holds the separator, and a request with a file from another site.
\<close>

definition order1_request :: request where
  "order1_request = \<lparr>req_method = ''POST'', json = Inr \<lparr>files = Some
     [\<lparr>url_prop = Some jenkins, filename_prop = Some ''a.jar''\<rparr>,
      \<lparr>url_prop = Some jenkins, filename_prop = Some ''b.jar''\<rparr>], zipFilename = None\<rparr>\<rparr>"

definition order2_request :: request where
  "order2_request = \<lparr>req_method = ''POST'', json = Inr \<lparr>files = Some
     [\<lparr>url_prop = Some jenkins, filename_prop = Some ''b.jar''\<rparr>,
      \<lparr>url_prop = Some jenkins, filename_prop = Some ''a.jar''\<rparr>], zipFilename = None\<rparr>\<rparr>"

definition joined_name :: string where
  "joined_name = ''a.jar|'' @ jenkins @ ''|b.jar''"

definition joined_request :: request where
  "joined_request = \<lparr>req_method = ''POST'', json = Inr \<lparr>files = Some
     [\<lparr>url_prop = Some jenkins, filename_prop = Some joined_name\<rparr>],
     zipFilename = None\<rparr>\<rparr>"

definition elsewhere_request :: request where
  "elsewhere_request = \<lparr>req_method = ''POST'', json = Inr \<lparr>files = Some
     [\<lparr>url_prop = Some essentials, filename_prop = Some ''EssentialsX''\<rparr>,
      \<lparr>url_prop = Some elsewhere, filename_prop = Some ''plugin''\<rparr>], zipFilename = None\<rparr>\<rparr>"

section \<open>Properties\<close>

subsection \<open>Strings and the validation loop\<close>

lemma char_of_nat_eq: "(char_of (n::nat) = c) = (n mod 256 = of_char c)"
  by (metis of_char_of char_of_char)

lemmas lower_defs = toLowerCase_def lowerChar_def less_eq_char_def char_of_nat_eq

lemma replicate_numeral: "replicate (numeral k) x = x # replicate (pred_numeral k) x"
  by (simp add: numeral_eq_Suc)

lemma toLowerCase_jar: "toLowerCase ''.jar'' = ''.jar''"
  by (simp add: toLowerCase_def lowerChar_def less_eq_char_def)

lemma toLowerCase_append: "toLowerCase (a @ b) = toLowerCase a @ toLowerCase b"
  by (simp add: toLowerCase_def)

lemma endsWith_iff: "endsWith s p \<longleftrightarrow> (\<exists>t. s = t @ p)"
proof
  assume "endsWith s p"
  then have "s = take (length s - length p) s @ p"
    by (metis append_take_drop_id endsWith_def)
  then show "\<exists>t. s = t @ p" ..
next
  assume "\<exists>t. s = t @ p"
  then show "endsWith s p" by (auto simp: endsWith_def)
qed

lemma startsWith_iff: "startsWith s p \<longleftrightarrow> prefix p s"
  by (auto simp: startsWith_def prefix_def) (metis append_take_drop_id)

text \<open>
  The test of the code, lower-casing the whole name and looking at its end, is the
  case-insensitive comparison of an ending of the name with the suffix.
\<close>

lemma endsWith_lower_iff:
  "endsWith (toLowerCase name) ''.jar'' \<longleftrightarrow>
   (\<exists>stem ext. name = stem @ ext \<and> toLowerCase ext = toLowerCase ''.jar'')"
proof
  assume e: "endsWith (toLowerCase name) ''.jar''"
  let ?k = "length name - length ''.jar''"
  from e have "drop ?k (toLowerCase name) = ''.jar''"
    by (simp add: endsWith_def toLowerCase_def)
  then have "toLowerCase (drop ?k name) = ''.jar''"
    by (simp add: toLowerCase_def drop_map)
  then have "name = take ?k name @ drop ?k name \<and>
             toLowerCase (drop ?k name) = toLowerCase ''.jar''"
    by (simp add: toLowerCase_jar)
  then show "\<exists>stem ext. name = stem @ ext \<and> toLowerCase ext = toLowerCase ''.jar''"
    by blast
next
  assume "\<exists>stem ext. name = stem @ ext \<and> toLowerCase ext = toLowerCase ''.jar''"
  then obtain stem ext where "name = stem @ ext" "toLowerCase ext = ''.jar''"
    by (auto simp: toLowerCase_jar)
  then have "toLowerCase name = toLowerCase stem @ ''.jar''"
    by (simp add: toLowerCase_append)
  then show "endsWith (toLowerCase name) ''.jar''"
    unfolding endsWith_iff by blast
qed

lemma validate_Inl: "validate P fs acc = Inl r \<Longrightarrow> \<exists>msg. r = bad_request msg"
  by (induction fs arbitrary: acc) (auto split: option.splits if_splits)

lemma validate_Inl_other:
  "validate P fs acc = Inl r \<Longrightarrow> r \<noteq> bad_request ''No valid files provided''"
  by (induction P fs acc rule: validate.induct)
     (auto simp: bad_request_def split: option.splits if_splits)

lemma validate_Inr_allowed:
  "validate P fs acc = Inr vs \<Longrightarrow> f \<in> set fs \<Longrightarrow>
   \<exists>u. url_prop f = Some u \<and> isAllowedSource u"
  by (induction fs arbitrary: acc) (auto split: option.splits if_splits)

lemma validate_filenames:
  "validate P fs acc = Inr vs \<Longrightarrow>
   map (Some \<circ> filename) vs =
   map (Some \<circ> filename) acc @ map (map_option jarFilename \<circ> filename_prop) fs"
  by (induction P fs acc rule: validate.induct) (auto split: option.splits if_splits)

lemma validate_urls:
  "validate P fs acc = Inr vs \<Longrightarrow>
   map (Some \<circ> url) vs = map (Some \<circ> url) acc @ map url_prop fs"
  by (induction P fs acc rule: validate.induct) (auto split: option.splits if_splits)

lemma validate_length:
  "validate P fs acc = Inr vs \<Longrightarrow> length vs = length acc + length fs"
  by (induction P fs acc rule: validate.induct) (auto split: option.splits if_splits)

lemma validate_step:
  "(\<exists>msg. validate P (f # rest) acc = Inl (bad_request msg)) \<or>
   (\<exists>v. validate P (f # rest) acc = validate P rest (acc @ [v]))"
  by (auto split: option.splits)

text \<open>Facts about the example inputs, so that they can stay folded in the examples.\<close>

lemma url_facts:
  "demo_URL essentials = Some ''https:''" "isAllowedSource essentials" "essentials \<noteq> []"
  "demo_URL chat = Some ''https:''" "isAllowedSource chat" "chat \<noteq> []"
  "demo_URL jenkins = Some ''https:''" "isAllowedSource jenkins" "jenkins \<noteq> []"
  "demo_URL elsewhere = Some ''https:''" "\<not> isAllowedSource elsewhere" "elsewhere \<noteq> []"
  by (simp_all add: essentials_def chat_def jenkins_def elsewhere_def demo_URL_def
        startsWith_def isAllowedSource_def allowedPrefixes_def)

lemma url_lengths: "length essentials = 89" "length chat = 91" "length jenkins = 46"
  by (simp_all add: essentials_def chat_def jenkins_def)

lemma urls_distinct: "chat \<noteq> essentials" "jenkins \<noteq> essentials" "jenkins \<noteq> chat"
  by (simp_all add: chat_def essentials_def jenkins_def)

lemma jarFilename_examples:
  "jarFilename ''a.jar'' = ''a.jar''" "jarFilename ''b.jar'' = ''b.jar''"
  "jarFilename ''EssentialsX'' = ''EssentialsX.jar''" "jarFilename ''Chat.JAR'' = ''Chat.JAR''"
  "jarFilename ''plugin'' = ''plugin.jar''"
  by (simp_all add: jarFilename_def endsWith_def toLowerCase_def lowerChar_def less_eq_char_def
        char_of_nat_eq)

lemma joined_name_facts: "jarFilename joined_name = joined_name" "joined_name \<noteq> []"
proof -
  have "joined_name = (''a.jar|'' @ jenkins @ ''|b'') @ ''.jar''"
    by (simp add: joined_name_def)
  then have "endsWith (toLowerCase joined_name) ''.jar''"
    unfolding endsWith_lower_iff by blast
  then show "jarFilename joined_name = joined_name"
    by (simp add: jarFilename_def)
  show "joined_name \<noteq> []"
    by (simp add: joined_name_def)
qed

lemma validate_demo:
  "validate demo [\<lparr>url_prop = Some essentials, filename_prop = Some ''EssentialsX''\<rparr>,
                  \<lparr>url_prop = Some chat, filename_prop = Some ''Chat.JAR''\<rparr>] [] =
   Inr [\<lparr>url = essentials, filename = ''EssentialsX.jar''\<rparr>,
        \<lparr>url = chat, filename = ''Chat.JAR''\<rparr>]"
  by (simp add: demo_def url_facts jarFilename_examples)

lemma validate_elsewhere:
  "validate demo [\<lparr>url_prop = Some elsewhere, filename_prop = Some ''plugin''\<rparr>] [] =
   Inl (bad_request (''URL must start with one of the allowed EssentialsX sources: '' @
     ''https://github.com/EssentialsX/Essentials/, https://ci.ender.zone/job/EssentialsX/'' @
     ''. Got: '' @ elsewhere))"
  by (simp add: demo_def url_facts allowedPrefixes_def)

subsection \<open>Claim C10\<close>

text \<open>
  C10. Once the files array has passed the non-empty check, the branch that answers
  \<open>No valid files provided\<close> cannot be taken. An iteration of the validation loop
  either returns a 400 response or goes on with exactly one entry appended; so a loop
  that ends without a response has appended as many entries as the array holds, the
  validated list of a non-empty array is non-empty, and no request is answered with
  that response.
\<close>

theorem no_valid_files_branch_unreachable:
  "((\<exists>msg. validate P (f # rest) acc = Inl (bad_request msg)) \<or>
    (\<exists>v. validate P (f # rest) acc = validate P rest (acc @ [v]))) \<and>
   (validate P fs [] = Inl r \<longrightarrow> status r = 400) \<and>
   (validate P fs [] = Inr validFiles \<longrightarrow> length validFiles = length fs) \<and>
   (length fs \<noteq> 0 \<and> validate P fs [] = Inr validFiles \<longrightarrow> length validFiles \<noteq> 0) \<and>
   result (handlePostRequest P C request) \<noteq> Inr (bad_request ''No valid files provided'')"
proof (intro conjI impI)
  show "(\<exists>msg. validate P (f # rest) acc = Inl (bad_request msg)) \<or>
        (\<exists>v. validate P (f # rest) acc = validate P rest (acc @ [v]))"
    by (rule validate_step)
next
  assume "validate P fs [] = Inl r"
  then show "status r = 400"
    by (auto dest: validate_Inl simp: bad_request_def)
next
  assume "validate P fs [] = Inr validFiles"
  then show "length validFiles = length fs"
    by (auto dest: validate_length)
next
  assume "length fs \<noteq> 0 \<and> validate P fs [] = Inr validFiles"
  then show "length validFiles \<noteq> 0"
    by (auto dest: validate_length)
next
  show "result (handlePostRequest P C request) \<noteq> Inr (bad_request ''No valid files provided'')"
  proof (cases "json request")
    case (Inl e)
    then show ?thesis by (simp add: handlePostRequest_def)
  next
    case b: (Inr b)
    show ?thesis
    proof (cases "files b")
      case None
      with b show ?thesis by (simp add: handlePostRequest_def bad_request_def)
    next
      case fs: (Some fs')
      show ?thesis
      proof (cases "fs' = []")
        case True
        with b fs show ?thesis by (simp add: handlePostRequest_def bad_request_def)
      next
        case ne: False
        show ?thesis
        proof (cases "validate P fs' []")
          case (Inl r')
          with b fs ne show ?thesis
            by (simp add: handlePostRequest_def validate_Inl_other)
        next
          case (Inr vs)
          then have "length vs \<noteq> 0"
            using ne by (auto dest: validate_length)
          with b fs ne Inr show ?thesis
            by (auto simp: handlePostRequest_def bad_request_def createZipResponse_def Let_def
                  split: option.splits prod.splits sum.splits)
        qed
      qed
    qed
  qed
qed

theorem no_valid_files_branch_unreachable_witness:
  "validate demo [\<lparr>url_prop = Some essentials, filename_prop = Some ''EssentialsX''\<rparr>,
                  \<lparr>url_prop = Some chat, filename_prop = Some ''Chat.JAR''\<rparr>] [] =
     Inr [\<lparr>url = essentials, filename = ''EssentialsX.jar''\<rparr>,
          \<lparr>url = chat, filename = ''Chat.JAR''\<rparr>] \<and>
   length [\<lparr>url = essentials, filename = ''EssentialsX.jar''\<rparr>,
           \<lparr>url = chat, filename = ''Chat.JAR''\<rparr>] =
   length [\<lparr>url_prop = Some essentials, filename_prop = Some ''EssentialsX''\<rparr>,
           \<lparr>url_prop = Some chat, filename_prop = Some ''Chat.JAR''\<rparr>] \<and>
   validate demo [\<lparr>url_prop = Some elsewhere, filename_prop = Some ''plugin''\<rparr>] [] =
     Inl (bad_request (''URL must start with one of the allowed EssentialsX sources: '' @
       ''https://github.com/EssentialsX/Essentials/, https://ci.ender.zone/job/EssentialsX/'' @
       ''. Got: '' @ elsewhere)) \<and>
   status (bad_request (''URL must start with one of the allowed EssentialsX sources: '' @
       ''https://github.com/EssentialsX/Essentials/, https://ci.ender.zone/job/EssentialsX/'' @
       ''. Got: '' @ elsewhere)) = 400 \<and>
   result (handlePostRequest demo Map.empty order1_request) \<noteq>
     Inr (bad_request ''No valid files provided'')"
  using no_valid_files_branch_unreachable
         [of demo _ _ _ "[\<lparr>url_prop = Some essentials, filename_prop = Some ''EssentialsX''\<rparr>,
                          \<lparr>url_prop = Some chat, filename_prop = Some ''Chat.JAR''\<rparr>]"
            _ "[\<lparr>url = essentials, filename = ''EssentialsX.jar''\<rparr>,
                \<lparr>url = chat, filename = ''Chat.JAR''\<rparr>]" Map.empty order1_request]
       no_valid_files_branch_unreachable
         [of demo _ _ _ "[\<lparr>url_prop = Some elsewhere, filename_prop = Some ''plugin''\<rparr>]"
            "bad_request (''URL must start with one of the allowed EssentialsX sources: '' @
       ''https://github.com/EssentialsX/Essentials/, https://ci.ender.zone/job/EssentialsX/'' @
       ''. Got: '' @ elsewhere)"]
       validate_demo validate_elsewhere
  by simp

subsection \<open>Claim C6\<close>

text \<open>
  C6. Filename normalization: the suffix \<open>.jar\<close> is appended exactly when the given
  filename does not end with it under a case-insensitive comparison, and a filename that
  bears the suffix in any case is kept as it is, casing included. Every entry of the
  validated list carries the filename normalized in this way.
\<close>

theorem filename_normalization:
  "jarFilename name =
     (if (\<exists>stem ext. name = stem @ ext \<and> toLowerCase ext = toLowerCase ''.jar'')
      then name else name @ ''.jar'') \<and>
   (validate P fs [] = Inr validFiles \<longrightarrow>
      map (Some \<circ> filename) validFiles = map (map_option jarFilename \<circ> filename_prop) fs)"
  using endsWith_lower_iff [of name]
  by (auto simp: jarFilename_def dest: validate_filenames)

theorem filename_normalization_witness:
  "validate demo [\<lparr>url_prop = Some essentials, filename_prop = Some ''EssentialsX''\<rparr>,
                  \<lparr>url_prop = Some chat, filename_prop = Some ''Chat.JAR''\<rparr>] [] =
     Inr [\<lparr>url = essentials, filename = ''EssentialsX.jar''\<rparr>,
          \<lparr>url = chat, filename = ''Chat.JAR''\<rparr>] \<and>
   map (Some \<circ> filename) [\<lparr>url = essentials, filename = ''EssentialsX.jar''\<rparr>,
                           \<lparr>url = chat, filename = ''Chat.JAR''\<rparr>] =
     [Some (jarFilename ''EssentialsX''), Some (jarFilename ''Chat.JAR'')] \<and>
   ''Chat.JAR'' = ''Chat'' @ ''.JAR'' \<and> toLowerCase ''.JAR'' = toLowerCase ''.jar'' \<and>
   jarFilename ''Chat.JAR'' = ''Chat.JAR''"
proof -
  have low: "toLowerCase ''.JAR'' = toLowerCase ''.jar''"
    by (simp add: toLowerCase_def lowerChar_def less_eq_char_def char_of_nat_eq)
  then have "\<exists>stem ext. ''Chat.JAR'' = stem @ ext \<and> toLowerCase ext = toLowerCase ''.jar''"
    by (intro exI [of _ "''Chat''"] exI [of _ "''.JAR''"]) simp
  with filename_normalization
         [of "''Chat.JAR''" demo
            "[\<lparr>url_prop = Some essentials, filename_prop = Some ''EssentialsX''\<rparr>,
              \<lparr>url_prop = Some chat, filename_prop = Some ''Chat.JAR''\<rparr>]"
            "[\<lparr>url = essentials, filename = ''EssentialsX.jar''\<rparr>,
              \<lparr>url = chat, filename = ''Chat.JAR''\<rparr>]"]
       validate_demo low
  show ?thesis by simp
qed

subsection \<open>Claim C5\<close>

text \<open>
  C5. A request whose file list holds at least one entry whose url does not start with
  an allow-listed prefix is answered with a 400, and no remote fetch is made for any file
  of the request: the validation of the entries ends with the rejection before the fetch
  step is reached. The same holds for an entry without a url.
\<close>

theorem disallowed_source_rejected_before_fetch:
  assumes "json request = Inr b" and "files b = Some fs" and "f \<in> set fs"
    and "\<forall>u. url_prop f = Some u \<longrightarrow> \<not> isAllowedSource u"
  shows "(\<exists>r. result (handlePostRequest P C request) = Inr r \<and> status r = 400) \<and>
         fetched (handlePostRequest P C request) = [] \<and>
         (req_method request = ''POST'' \<longrightarrow>
            status (result (fetch P C request)) = 400 \<and> fetched (fetch P C request) = [])"
proof -
  from assms(3) have ne: "fs \<noteq> []" by auto
  obtain r where r: "validate P fs [] = Inl r"
  proof (cases "validate P fs []")
    case (Inl r)
    then show ?thesis by (rule that)
  next
    case (Inr vs)
    from validate_Inr_allowed [OF this assms(3)] assms(4) show ?thesis by auto
  qed
  then have s: "status r = 400"
    by (auto dest: validate_Inl simp: bad_request_def)
  from assms(1,2) ne r
  have "handlePostRequest P C request = \<lparr>result = Inr r, fetched = [], stored = C\<rparr>"
    by (simp add: handlePostRequest_def)
  with s show ?thesis
    by (simp add: fetch_def)
qed

theorem disallowed_source_rejected_before_fetch_witness:
  "json elsewhere_request = Inr \<lparr>files = Some
     [\<lparr>url_prop = Some essentials, filename_prop = Some ''EssentialsX''\<rparr>,
      \<lparr>url_prop = Some elsewhere, filename_prop = Some ''plugin''\<rparr>], zipFilename = None\<rparr> \<and>
   \<lparr>url_prop = Some elsewhere, filename_prop = Some ''plugin''\<rparr> \<in>
     set [\<lparr>url_prop = Some essentials, filename_prop = Some ''EssentialsX''\<rparr>,
          \<lparr>url_prop = Some elsewhere, filename_prop = Some ''plugin''\<rparr>] \<and>
   \<not> isAllowedSource elsewhere \<and>
   req_method elsewhere_request = ''POST'' \<and>
   status (result (fetch demo Map.empty elsewhere_request)) = 400 \<and>
   fetched (fetch demo Map.empty elsewhere_request) = []"
proof -
  have 1: "json elsewhere_request = Inr \<lparr>files = Some
     [\<lparr>url_prop = Some essentials, filename_prop = Some ''EssentialsX''\<rparr>,
      \<lparr>url_prop = Some elsewhere, filename_prop = Some ''plugin''\<rparr>], zipFilename = None\<rparr>"
    and 2: "req_method elsewhere_request = ''POST''"
    by (simp_all add: elsewhere_request_def)
  have 3: "\<forall>u. url_prop \<lparr>url_prop = Some elsewhere, filename_prop = Some ''plugin''\<rparr> = Some u
             \<longrightarrow> \<not> isAllowedSource u"
    by (simp add: url_facts)
  from disallowed_source_rejected_before_fetch [OF 1 _ _ 3, of _ demo Map.empty] 1 2
  show ?thesis by (simp add: url_facts)
qed

subsection \<open>Claim C8\<close>

text \<open>
  C8. The claim: a POST whose body cannot be parsed is answered with a 400 and a
  specific reason, like the other validation errors. The code: \<^verbatim>\<open>request.json()\<close>
  rejects, nothing in \<^verbatim>\<open>handlePostRequest\<close> catches the error, and the \<^verbatim>\<open>catch\<close> of the
  exported handler answers 500 with the text \<open>Internal Server Error:\<close> and the
  parser's message.
\<close>

theorem malformed_body_answers_500:
  "result (fetch P C \<lparr>req_method = ''POST'', json = Inl (Error msg)\<rparr>) =
     \<lparr>status = 500, headers = [(''Access-Control-Allow-Origin'', ''*'')],
      body = Text (''Internal Server Error: '' @ msg)\<rparr>"
  by (simp add: fetch_def handlePostRequest_def)

subsection \<open>Claim C9\<close>

lemma bad_request_cors:
  "headers_get (headers (bad_request msg)) ''Access-Control-Allow-Origin'' = Some ''*''"
  by (simp add: bad_request_def headers_get_def)

lemma createZipResponse_cors:
  "headers_get (headers (createZipResponse zipData tag name)) ''Access-Control-Allow-Origin'' =
     Some ''*''"
  by (simp add: createZipResponse_def headers_get_def lower_defs)

lemma handlePostRequest_cors:
  "result (handlePostRequest P C request) = Inr r \<Longrightarrow>
   headers_get (headers r) ''Access-Control-Allow-Origin'' = Some ''*''"
  by (auto simp: handlePostRequest_def bad_request_cors createZipResponse_cors
        dest!: validate_Inl split: sum.splits option.splits prod.splits if_splits)

lemma fetch_cors:
  "req_method request = ''OPTIONS'' \<or> req_method request = ''POST'' \<Longrightarrow>
   headers_get (headers (result (fetch P C request))) ''Access-Control-Allow-Origin'' = Some ''*''"
  by (auto simp: fetch_def Let_def headers_get_def
        dest: handlePostRequest_cors split: sum.splits)

text \<open>
  C9. The claim: every response of the handler carries the permissive cross-origin
  header, the 405 for unsupported methods included. The code: the answers to OPTIONS and
  to POST carry it (\<open>fetch_cors\<close>: each 400, the 500 and the archive alike), but the 405
  is built without any header. At a GET request the response is the 405 and it has no
  \<open>Access-Control-Allow-Origin\<close> header.
\<close>

theorem method_not_allowed_lacks_cors_header:
  "result (fetch P C \<lparr>req_method = ''GET'', json = j\<rparr>) =
     \<lparr>status = 405, headers = [], body = Text ''Method not allowed''\<rparr> \<and>
   headers_get (headers (result (fetch P C \<lparr>req_method = ''GET'', json = j\<rparr>)))
     ''Access-Control-Allow-Origin'' = None"
  by (simp add: fetch_def headers_get_def)

subsection \<open>Running the handlers on the examples\<close>

lemma stored_etag:
  "headers_get [(''Content-Type'', a), (''etag'', t), (''x-timestamp'', b), (''Cache-Control'', c)]
     ''etag'' = Some t"
  by (simp add: headers_get_def lower_defs)

lemmas run_defs = fetch_def handlePostRequest_def Let_def demo_def url_facts url_lengths
  jarFilename_examples joined_name_facts getCachedZip_def getCachedZip_try_def cacheZip_def
  cacheZip_try_def createZipFromFiles_def download_def ok_def createZip_def
  createZipResponse_def cacheRequest_def stored_etag

lemma order1_run:
  "status (result (fetch demo Map.empty order1_request)) = 200"
  "body (result (fetch demo Map.empty order1_request)) = Binary [46, 46]"
  "fetched (fetch demo Map.empty order1_request) = [jenkins, jenkins]"
  by (simp_all add: run_defs order1_request_def)

lemma joined_run:
  "status (result (fetch demo Map.empty joined_request)) = 200"
  "body (result (fetch demo Map.empty joined_request)) = Binary [46]"
  "fetched (fetch demo Map.empty joined_request) = [jenkins]"
  by (simp_all add: run_defs joined_request_def)

subsection \<open>Claim C2\<close>

lemma filter_isl_map: "filter isl (map g xs) = map g (filter (\<lambda>x. isl (g x)) xs)"
  by (induction xs) auto

lemma createZipFromFiles_failed:
  assumes "\<exists>f \<in> set fs. isl (download P f)"
  shows "fst (createZipFromFiles P fs) =
    Inl (Error (''Failed to download some files: '' @
      join '', '' (map (\<lambda>f. message (projl (download P f)))
                     (filter (\<lambda>f. isl (download P f)) fs))))"
proof -
  from assms have "filter (\<lambda>f. isl (download P f)) fs \<noteq> []"
    by (auto simp: filter_empty_conv)
  then show ?thesis
    by (simp add: createZipFromFiles_def Let_def filter_isl_map comp_def)
qed

lemma createZipFromFiles_ok:
  assumes "\<forall>f \<in> set fs. \<not> isl (download P f)"
  shows "fst (createZipFromFiles P fs) = createZip P (map (\<lambda>f. projr (download P f)) fs)"
proof -
  from assms have "filter isl (map (download P) fs) = []"
    by (auto simp: filter_empty_conv)
  moreover from assms
  have "filter (\<lambda>r. \<not> isl r) (map (download P) fs) = map (download P) fs"
    by (auto simp: filter_id_conv)
  ultimately show ?thesis
    by (simp add: createZipFromFiles_def Let_def comp_def)
qed

lemma download_not_ok:
  "global_fetch P (url f) = Resolved r \<Longrightarrow> \<not> ok r \<Longrightarrow>
   download P f = Inl (Error (''Failed to download '' @ url f @ '': '' @
                              decimal (r_status r) @ '' '' @ statusText r))"
  by (simp add: download_def)

lemma download_Inr:
  "download P f = Inr d \<Longrightarrow>
   dl_filename d = filename f \<and>
   (\<exists>r. global_fetch P (url f) = Resolved r \<and> ok r \<and> arrayBuffer r = Inr (dl_data d))"
  by (auto simp: download_def split: fetch_outcome.splits if_splits sum.splits)

lemma download_zip_writer: "download (P\<lparr>zip_writer := z\<rparr>) = download P"
  by (rule ext) (simp add: download_def)

lemma sublist_join: "x \<in> set xs \<Longrightarrow> sublist x (join sep xs)"
proof (induction sep xs rule: join.induct)
  case (1 sep)
  then show ?case by simp
next
  case (2 sep y)
  then show ?case by simp
next
  case (3 sep y z zs)
  show ?case
  proof (cases "x = y")
    case True
    then show ?thesis by simp
  next
    case False
    with 3 have "sublist x (join sep (z # zs))" by simp
    then show ?thesis by (simp add: sublist_append)
  qed
qed

lemma failure_enumerated:
  assumes "f \<in> set fs" and "isl (download P f)"
  shows "\<exists>e. fst (createZipFromFiles P fs) = Inl e \<and>
             sublist (message (projl (download P f))) (message e)"
proof -
  let ?failed = "filter (\<lambda>f. isl (download P f)) fs"
  let ?msgs = "map (\<lambda>f. message (projl (download P f))) ?failed"
  from assms have "message (projl (download P f)) \<in> set ?msgs" by auto
  then have "sublist (message (projl (download P f))) (join '', '' ?msgs)"
    by (rule sublist_join)
  then have "sublist (message (projl (download P f)))
               (''Failed to download some files: '' @ join '', '' ?msgs)"
    by (simp only: sublist_append) simp
  moreover from assms have "\<exists>f \<in> set fs. isl (download P f)" by blast
  ultimately show ?thesis
    by (simp add: createZipFromFiles_failed)
qed

lemma status_failure_names_url:
  assumes "f \<in> set fs" and "global_fetch P (url f) = Resolved r" and "\<not> ok r"
  shows "\<exists>e. fst (createZipFromFiles P fs) = Inl e \<and> sublist (url f) (message e)"
proof -
  let ?reason = "''Failed to download '' @ url f @ '': '' @ decimal (r_status r) @ '' '' @
                 statusText r"
  from assms(2,3) have d: "download P f = Inl (Error ?reason)"
    by (rule download_not_ok)
  with failure_enumerated [OF assms(1), of P]
  obtain e where e: "fst (createZipFromFiles P fs) = Inl e" "sublist ?reason (message e)"
    by auto
  have "sublist (url f) ?reason"
    by (rule sublist_appendI)
  from this e(2) have "sublist (url f) (message e)"
    by (rule sublist_order.order.trans)
  with e(1) show ?thesis by blast
qed

text \<open>
  C2, as stated: the fetch step is all-or-nothing, and when a retrieval fails the
  message of the one aggregate error names every failed URL with its reason. This fails
  where the global \<^verbatim>\<open>fetch\<close> itself rejects: without network the only retrieval fails,
  the aggregate error is thrown, and its message holds the runtime's reason but not the
  URL.
\<close>

theorem aggregate_error_names_no_url_counterexample:
  "isl (download offline \<lparr>url = jenkins, filename = ''a.jar''\<rparr>) \<and>
   fst (createZipFromFiles offline [\<lparr>url = jenkins, filename = ''a.jar''\<rparr>]) =
     Inl (Error ''Failed to download some files: Network connection lost.'') \<and>
   \<not> sublist jenkins ''Failed to download some files: Network connection lost.''"
  by (simp add: offline_def demo_def createZipFromFiles_def download_def jenkins_def
        sublist_code)

text \<open>
  C2, amended. The fetch step is all-or-nothing. The global \<^verbatim>\<open>fetch\<close> is called for
  every file of the list. If at least one retrieval fails, the step throws one error,
  whose message is \<open>Failed to download some files:\<close> followed by the reasons of all
  failed retrievals, in the order of the list and separated by commas, so that the reason
  of every failed retrieval stands in it; no archive is made, whatever the ZIP writer
  would do. The reason of a retrieval that was answered with a non-success status names
  the URL, the status and the status text, so that these URLs stand in the message; the
  reason of any other failure is the message of the error the runtime threw. If every retrieval succeeds, the step returns the
  archive packed from the downloaded files, in the order of the list.
\<close>

theorem fetch_step_all_or_nothing:
  "snd (createZipFromFiles P fs) = map url fs \<and>
   ((\<exists>f \<in> set fs. isl (download P f)) \<longrightarrow>
      fst (createZipFromFiles P fs) =
        Inl (Error (''Failed to download some files: '' @
          join '', '' (map (\<lambda>f. message (projl (download P f)))
                         (filter (\<lambda>f. isl (download P f)) fs)))) \<and>
      fst (createZipFromFiles (P\<lparr>zip_writer := z\<rparr>) fs) = fst (createZipFromFiles P fs)) \<and>
   (\<forall>f \<in> set fs. isl (download P f) \<longrightarrow>
      (\<exists>e. fst (createZipFromFiles P fs) = Inl e \<and>
           sublist (message (projl (download P f))) (message e))) \<and>
   (\<forall>(f :: valid_file) r. global_fetch P (url f) = Resolved r \<and> \<not> ok r \<longrightarrow>
      download P f = Inl (Error (''Failed to download '' @ url f @ '': '' @
                                 decimal (r_status r) @ '' '' @ statusText r))) \<and>
   (\<forall>f \<in> set fs. \<forall>r. global_fetch P (url f) = Resolved r \<and> \<not> ok r \<longrightarrow>
      (\<exists>e. fst (createZipFromFiles P fs) = Inl e \<and> sublist (url f) (message e))) \<and>
   ((\<forall>f \<in> set fs. \<not> isl (download P f)) \<longrightarrow>
      fst (createZipFromFiles P fs) = createZip P (map (\<lambda>f. projr (download P f)) fs))"
proof (intro conjI impI allI ballI)
  show "snd (createZipFromFiles P fs) = map url fs"
    by (simp add: createZipFromFiles_def Let_def)
next
  assume "\<exists>f \<in> set fs. isl (download P f)"
  then show "fst (createZipFromFiles P fs) =
        Inl (Error (''Failed to download some files: '' @
          join '', '' (map (\<lambda>f. message (projl (download P f)))
                         (filter (\<lambda>f. isl (download P f)) fs))))"
    by (rule createZipFromFiles_failed)
next
  assume f: "\<exists>f \<in> set fs. isl (download P f)"
  then have "\<exists>f \<in> set fs. isl (download (P\<lparr>zip_writer := z\<rparr>) f)"
    by (simp add: download_zip_writer)
  from createZipFromFiles_failed [OF this] createZipFromFiles_failed [OF f]
  show "fst (createZipFromFiles (P\<lparr>zip_writer := z\<rparr>) fs) = fst (createZipFromFiles P fs)"
    by (simp add: download_zip_writer)
next
  fix f assume "f \<in> set fs" "isl (download P f)"
  then show "\<exists>e. fst (createZipFromFiles P fs) = Inl e \<and>
           sublist (message (projl (download P f))) (message e)"
    by (rule failure_enumerated)
next
  fix f :: valid_file and r
  assume "global_fetch P (url f) = Resolved r \<and> \<not> ok r"
  then show "download P f = Inl (Error (''Failed to download '' @ url f @ '': '' @
                                 decimal (r_status r) @ '' '' @ statusText r))"
    by (simp add: download_not_ok)
next
  fix f r assume "f \<in> set fs" "global_fetch P (url f) = Resolved r \<and> \<not> ok r"
  then show "\<exists>e. fst (createZipFromFiles P fs) = Inl e \<and> sublist (url f) (message e)"
    by (auto intro: status_failure_names_url)
next
  assume "\<forall>f \<in> set fs. \<not> isl (download P f)"
  then show "fst (createZipFromFiles P fs) =
               createZip P (map (\<lambda>f. projr (download P f)) fs)"
    by (rule createZipFromFiles_ok)
qed

theorem fetch_step_all_or_nothing_witness:
  "isl (download flaky \<lparr>url = chat, filename = ''Chat.JAR''\<rparr>) \<and>
   isl (download flaky \<lparr>url = jenkins, filename = ''a.jar''\<rparr>) \<and>
   snd (createZipFromFiles flaky [\<lparr>url = essentials, filename = ''EssentialsX.jar''\<rparr>,
          \<lparr>url = chat, filename = ''Chat.JAR''\<rparr>, \<lparr>url = jenkins, filename = ''a.jar''\<rparr>]) =
     [essentials, chat, jenkins] \<and>
   fst (createZipFromFiles flaky [\<lparr>url = essentials, filename = ''EssentialsX.jar''\<rparr>,
          \<lparr>url = chat, filename = ''Chat.JAR''\<rparr>, \<lparr>url = jenkins, filename = ''a.jar''\<rparr>]) =
     Inl (Error (''Failed to download some files: Failed to download '' @ chat @
                 '': 404 Not Found, Network connection lost.'')) \<and>
   \<not> isl (download demo \<lparr>url = essentials, filename = ''EssentialsX.jar''\<rparr>) \<and>
   \<not> isl (download demo \<lparr>url = chat, filename = ''Chat.JAR''\<rparr>) \<and>
   fst (createZipFromFiles demo [\<lparr>url = essentials, filename = ''EssentialsX.jar''\<rparr>,
          \<lparr>url = chat, filename = ''Chat.JAR''\<rparr>]) = Inr [89, 91]"
proof -
  let ?fs = "[\<lparr>url = essentials, filename = ''EssentialsX.jar''\<rparr>,
          \<lparr>url = chat, filename = ''Chat.JAR''\<rparr>, \<lparr>url = jenkins, filename = ''a.jar''\<rparr>]"
  let ?gs = "[\<lparr>url = essentials, filename = ''EssentialsX.jar''\<rparr>,
          \<lparr>url = chat, filename = ''Chat.JAR''\<rparr>]"
  have d: "decimal 404 = ''404''"
    by (simp add: decimal.simps digitChar_def char_of_nat_eq)
  have 1: "download flaky \<lparr>url = essentials, filename = ''EssentialsX.jar''\<rparr> =
             Inr \<lparr>dl_filename = ''EssentialsX.jar'', dl_data = [7]\<rparr>"
    and 2: "download flaky \<lparr>url = chat, filename = ''Chat.JAR''\<rparr> =
             Inl (Error (''Failed to download '' @ chat @ '': 404 Not Found''))"
    and 3: "download flaky \<lparr>url = jenkins, filename = ''a.jar''\<rparr> =
             Inl (Error ''Network connection lost.'')"
    by (simp_all add: flaky_def demo_def download_def ok_def urls_distinct
          urls_distinct [symmetric] d)
  have 4: "download demo \<lparr>url = essentials, filename = ''EssentialsX.jar''\<rparr> =
             Inr \<lparr>dl_filename = ''EssentialsX.jar'', dl_data = [89]\<rparr>"
    and 5: "download demo \<lparr>url = chat, filename = ''Chat.JAR''\<rparr> =
             Inr \<lparr>dl_filename = ''Chat.JAR'', dl_data = [91]\<rparr>"
    by (simp_all add: demo_def download_def ok_def url_lengths)
  have "\<exists>f \<in> set ?fs. isl (download flaky f)"
    using 2 by simp
  moreover have "\<forall>f \<in> set ?gs. \<not> isl (download demo f)"
    using 4 5 by simp
  ultimately show ?thesis
    using fetch_step_all_or_nothing [of flaky ?fs] fetch_step_all_or_nothing [of demo ?gs]
      1 2 3 4 5
    by (simp add: createZip_def) (simp add: demo_def)
qed

subsection \<open>Claim C4\<close>

text \<open>
  C4. For a file set that was downloaded in full, the archive is assembled from exactly
  the named members of the set, in the order supplied by the fetch step, which is the
  order of the request: the ZIP writer is given one member per file, under the file's
  (normalized) name and with the bytes its URL returned, and the members come in the
  order of the validated list, which is the order of the entries of the request.
\<close>

theorem archive_members_in_request_order:
  assumes "map (download P) fs = map Inr ds"
  shows "fst (createZipFromFiles P fs) =
           zip_writer P (map (\<lambda>d. (dl_filename d, dl_data d)) ds) \<and>
         map dl_filename ds = map filename fs \<and>
         list_all2 (\<lambda>f d. \<exists>r. global_fetch P (url f) = Resolved r \<and>
                                arrayBuffer r = Inr (dl_data d)) fs ds \<and>
         (validate P entries [] = Inr fs \<longrightarrow>
            map (Some \<circ> url) fs = map url_prop entries \<and>
            map (Some \<circ> dl_filename) ds = map (map_option jarFilename \<circ> filename_prop) entries)"
proof -
  from assms have len: "length ds = length fs"
    by (metis length_map)
  from assms have each: "download P (fs ! i) = Inr (ds ! i)" if "i < length fs" for i
    using that len by (metis nth_map)
  have ok: "\<forall>f \<in> set fs. \<not> isl (download P f)"
  proof
    fix f assume "f \<in> set fs"
    then obtain i where "i < length fs" "fs ! i = f" by (auto simp: in_set_conv_nth)
    with each show "\<not> isl (download P f)" by auto
  qed
  have "map (\<lambda>f. projr (download P f)) fs = ds"
    using each len by (intro nth_equalityI) auto
  with createZipFromFiles_ok [OF ok]
  have 1: "fst (createZipFromFiles P fs) =
             zip_writer P (map (\<lambda>d. (dl_filename d, dl_data d)) ds)"
    by (simp add: createZip_def)
  have 2: "map dl_filename ds = map filename fs"
    using each len by (intro list_eq_iff_nth_eq [THEN iffD2]) (auto dest: download_Inr)
  have 3: "list_all2 (\<lambda>f d. \<exists>r. global_fetch P (url f) = Resolved r \<and>
                                 arrayBuffer r = Inr (dl_data d)) fs ds"
    using each len by (intro list_all2_all_nthI) (auto dest!: download_Inr)
  have 4: "map (Some \<circ> url) fs = map url_prop entries \<and>
           map (Some \<circ> dl_filename) ds = map (map_option jarFilename \<circ> filename_prop) entries"
    if "validate P entries [] = Inr fs"
  proof -
    have "map (Some \<circ> dl_filename) ds = map Some (map dl_filename ds)" by simp
    also have "\<dots> = map (Some \<circ> filename) fs" using 2 by simp
    finally show ?thesis
      using validate_urls [OF that] validate_filenames [OF that] by simp
  qed
  from 1 2 3 4 show ?thesis by simp
qed

theorem archive_members_in_request_order_witness:
  "map (download demo) [\<lparr>url = essentials, filename = ''EssentialsX.jar''\<rparr>,
                        \<lparr>url = chat, filename = ''Chat.JAR''\<rparr>] =
     map Inr [\<lparr>dl_filename = ''EssentialsX.jar'', dl_data = [89]\<rparr>,
              \<lparr>dl_filename = ''Chat.JAR'', dl_data = [91]\<rparr>] \<and>
   validate demo [\<lparr>url_prop = Some essentials, filename_prop = Some ''EssentialsX''\<rparr>,
                  \<lparr>url_prop = Some chat, filename_prop = Some ''Chat.JAR''\<rparr>] [] =
     Inr [\<lparr>url = essentials, filename = ''EssentialsX.jar''\<rparr>,
          \<lparr>url = chat, filename = ''Chat.JAR''\<rparr>] \<and>
   fst (createZipFromFiles demo [\<lparr>url = essentials, filename = ''EssentialsX.jar''\<rparr>,
                                 \<lparr>url = chat, filename = ''Chat.JAR''\<rparr>]) =
     zip_writer demo [(''EssentialsX.jar'', [89]), (''Chat.JAR'', [91])] \<and>
   zip_writer demo [(''EssentialsX.jar'', [89]), (''Chat.JAR'', [91])] = Inr [89, 91]"
proof -
  have 1: "map (download demo) [\<lparr>url = essentials, filename = ''EssentialsX.jar''\<rparr>,
                        \<lparr>url = chat, filename = ''Chat.JAR''\<rparr>] =
     map Inr [\<lparr>dl_filename = ''EssentialsX.jar'', dl_data = [89]\<rparr>,
              \<lparr>dl_filename = ''Chat.JAR'', dl_data = [91]\<rparr>]"
    by (simp add: demo_def download_def ok_def url_lengths)
  have 2: "zip_writer demo [(''EssentialsX.jar'', [89]), (''Chat.JAR'', [91])] = Inr [89, 91]"
    by (simp add: demo_def)
  from archive_members_in_request_order [OF 1,
         of "[\<lparr>url_prop = Some essentials, filename_prop = Some ''EssentialsX''\<rparr>,
              \<lparr>url_prop = Some chat, filename_prop = Some ''Chat.JAR''\<rparr>]"]
       1 2 validate_demo
  show ?thesis by (simp add: jarFilename_examples)
qed

subsection \<open>Claim C7\<close>

lemma validate_cache_fault [simp]:
  "validate (P\<lparr>cache_fault := g\<rparr>) fs acc = validate P fs acc"
  by (induction fs arbitrary: acc) (auto split: option.splits)

lemma cacheKey_cache_fault [simp]: "cacheKey (P\<lparr>cache_fault := g\<rparr>) vs = cacheKey P vs"
  by (simp add: cacheKey_def serialized_def sortedFiles_def)

lemma download_cache_fault [simp]: "download (P\<lparr>cache_fault := g\<rparr>) = download P"
  by (rule ext) (simp add: download_def)

lemma createZipFromFiles_cache_fault [simp]:
  "createZipFromFiles (P\<lparr>cache_fault := g\<rparr>) vs = createZipFromFiles P vs"
  by (simp add: createZipFromFiles_def createZip_def Let_def)

lemma getCachedZip_throws: "getCachedZip_try P C k = Inl e \<Longrightarrow> getCachedZip P C k = None"
  by (simp add: getCachedZip_def)

lemma getCachedZip_faulty:
  "cache_fault P LookupOpen \<noteq> None \<or> cache_fault P LookupMatch \<noteq> None \<or>
   cache_fault P LookupRead \<noteq> None \<Longrightarrow> getCachedZip P C k = None"
  by (auto simp: getCachedZip_def getCachedZip_try_def split: option.splits)

lemma getCachedZip_miss: "getCachedZip (P\<lparr>cache_fault := (\<lambda>c. None)\<rparr>) Map.empty k = None"
  by (simp add: getCachedZip_def getCachedZip_try_def)

lemma getCachedZip_store_faults:
  "g LookupOpen = cache_fault P LookupOpen \<Longrightarrow> g LookupMatch = cache_fault P LookupMatch \<Longrightarrow>
   g LookupRead = cache_fault P LookupRead \<Longrightarrow>
   getCachedZip (P\<lparr>cache_fault := g\<rparr>) C k = getCachedZip P C k"
  by (simp add: getCachedZip_def getCachedZip_try_def split: option.splits)

lemma handlePostRequest_same_lookup:
  assumes "\<And>k. getCachedZip (P\<lparr>cache_fault := g\<rparr>) C' k = getCachedZip P C k"
  shows "result (handlePostRequest (P\<lparr>cache_fault := g\<rparr>) C' request) =
           result (handlePostRequest P C request) \<and>
         fetched (handlePostRequest (P\<lparr>cache_fault := g\<rparr>) C' request) =
           fetched (handlePostRequest P C request)"
  by (simp add: handlePostRequest_def assms split: sum.splits option.splits prod.splits)

lemma fetch_same_lookup:
  assumes "\<And>k. getCachedZip (P\<lparr>cache_fault := g\<rparr>) C' k = getCachedZip P C k"
  shows "result (fetch (P\<lparr>cache_fault := g\<rparr>) C' request) = result (fetch P C request) \<and>
         fetched (fetch (P\<lparr>cache_fault := g\<rparr>) C' request) = fetched (fetch P C request)"
  using handlePostRequest_same_lookup [OF assms, of request]
  by (simp add: fetch_def Let_def split: sum.splits)

text \<open>
  C7. Cache failures are absorbed. A lookup that throws returns null: whenever a call of
  the Cache API fails during the lookup, the request is answered as it is on a plain
  miss (the same response and the same downloads as with an empty, working cache)
  instead of failing. The store runs as a background task that catches its own errors:
  a store that throws leaves the cache as it was, and the response to the client does
  not depend on whether the store fails.
\<close>

theorem cache_failures_absorbed:
  "(getCachedZip_try P C k = Inl e \<longrightarrow> getCachedZip P C k = None) \<and>
   (cache_fault P LookupOpen \<noteq> None \<or> cache_fault P LookupMatch \<noteq> None \<or>
    cache_fault P LookupRead \<noteq> None \<longrightarrow>
      result (fetch P C request) =
        result (fetch (P\<lparr>cache_fault := (\<lambda>c. None)\<rparr>) Map.empty request) \<and>
      fetched (fetch P C request) =
        fetched (fetch (P\<lparr>cache_fault := (\<lambda>c. None)\<rparr>) Map.empty request)) \<and>
   (cacheZip_try P C k zipData tag = Inl e \<longrightarrow> cacheZip P C k zipData tag = C) \<and>
   (g LookupOpen = cache_fault P LookupOpen \<and> g LookupMatch = cache_fault P LookupMatch \<and>
    g LookupRead = cache_fault P LookupRead \<longrightarrow>
      result (fetch (P\<lparr>cache_fault := g\<rparr>) C request) = result (fetch P C request) \<and>
      fetched (fetch (P\<lparr>cache_fault := g\<rparr>) C request) = fetched (fetch P C request))"
proof (intro conjI impI)
  assume "getCachedZip_try P C k = Inl e"
  then show "getCachedZip P C k = None" by (rule getCachedZip_throws)
next
  assume f: "cache_fault P LookupOpen \<noteq> None \<or> cache_fault P LookupMatch \<noteq> None \<or>
    cache_fault P LookupRead \<noteq> None"
  have "getCachedZip (P\<lparr>cache_fault := (\<lambda>c. None)\<rparr>) Map.empty k' = getCachedZip P C k'"
    for k'
    using getCachedZip_faulty [OF f] by (simp add: getCachedZip_miss)
  from fetch_same_lookup [OF this, of request]
  show "result (fetch P C request) =
          result (fetch (P\<lparr>cache_fault := (\<lambda>c. None)\<rparr>) Map.empty request)"
    and "fetched (fetch P C request) =
          fetched (fetch (P\<lparr>cache_fault := (\<lambda>c. None)\<rparr>) Map.empty request)"
    by simp_all
next
  assume "cacheZip_try P C k zipData tag = Inl e"
  then show "cacheZip P C k zipData tag = C" by (simp add: cacheZip_def)
next
  assume g: "g LookupOpen = cache_fault P LookupOpen \<and>
    g LookupMatch = cache_fault P LookupMatch \<and> g LookupRead = cache_fault P LookupRead"
  then have "getCachedZip (P\<lparr>cache_fault := g\<rparr>) C k' = getCachedZip P C k'" for k'
    by (simp add: getCachedZip_store_faults)
  from fetch_same_lookup [OF this, of request]
  show "result (fetch (P\<lparr>cache_fault := g\<rparr>) C request) = result (fetch P C request)"
    and "fetched (fetch (P\<lparr>cache_fault := g\<rparr>) C request) = fetched (fetch P C request)"
    by simp_all
qed

text \<open>
  With a cache whose every call throws, the lookup returns null, the two files are
  downloaded and the archive is served; a store that throws changes nothing in the
  response.
\<close>

theorem cache_failures_absorbed_witness:
  "getCachedZip_try cache_down Map.empty ''k'' = Inl (Error ''cache unavailable'') \<and>
   getCachedZip cache_down Map.empty ''k'' = None \<and>
   cache_fault cache_down LookupOpen = Some (Error ''cache unavailable'') \<and>
   result (fetch cache_down Map.empty order1_request) =
     result (fetch (cache_down\<lparr>cache_fault := (\<lambda>c. None)\<rparr>) Map.empty order1_request) \<and>
   status (result (fetch cache_down Map.empty order1_request)) = 200 \<and>
   body (result (fetch cache_down Map.empty order1_request)) = Binary [46, 46] \<and>
   fetched (fetch cache_down Map.empty order1_request) = [jenkins, jenkins] \<and>
   cacheZip_try cache_down Map.empty ''k'' [46, 46] ''t'' = Inl (Error ''cache unavailable'') \<and>
   cacheZip cache_down Map.empty ''k'' [46, 46] ''t'' = Map.empty \<and>
   store_down LookupOpen = cache_fault demo LookupOpen \<and>
   store_down LookupMatch = cache_fault demo LookupMatch \<and>
   store_down LookupRead = cache_fault demo LookupRead \<and>
   store_down StorePut = Some (Error ''quota exceeded'') \<and>
   result (fetch (demo\<lparr>cache_fault := store_down\<rparr>) Map.empty order1_request) =
     result (fetch demo Map.empty order1_request)"
proof -
  have 1: "getCachedZip_try cache_down Map.empty ''k'' = Inl (Error ''cache unavailable'')"
    and 2: "cacheZip_try cache_down Map.empty ''k'' [46, 46] ''t'' =
              Inl (Error ''cache unavailable'')"
    and 3: "cache_fault cache_down LookupOpen = Some (Error ''cache unavailable'')"
    by (simp_all add: cache_down_def getCachedZip_try_def cacheZip_try_def)
  have 4: "store_down LookupOpen = cache_fault demo LookupOpen \<and>
           store_down LookupMatch = cache_fault demo LookupMatch \<and>
           store_down LookupRead = cache_fault demo LookupRead"
    and 5: "store_down StorePut = Some (Error ''quota exceeded'')"
    by (simp_all add: store_down_def demo_def)
  have 6: "cache_down\<lparr>cache_fault := (\<lambda>c. None)\<rparr> = demo"
    by (simp add: cache_down_def demo_def)
  from 3 have 7: "cache_fault cache_down LookupOpen \<noteq> None \<or>
      cache_fault cache_down LookupMatch \<noteq> None \<or> cache_fault cache_down LookupRead \<noteq> None"
    by simp
  from cache_failures_absorbed
         [of cache_down Map.empty "''k''" "Error ''cache unavailable''" order1_request
            "[46, 46]" "''t''"]
       cache_failures_absorbed
         [of demo Map.empty _ _ order1_request _ _ store_down]
       1 2 3 4 5 6 7 order1_run
  show ?thesis by simp
qed

subsection \<open>SHA-256 on the examples\<close>

text \<open>
  The digest of the three bytes \<open>abc\<close> is the one FIPS 180-4 gives for them. Each
  compression of a block is a lemma of its own; the digests follow from them.
\<close>

lemma abc_length: "length (''abc'') = 3"
  by simp

lemma abc_words:
  "be32 (pad (encode (''abc''))) =
     [1633837952, 0, 0, 0, 0, 0,
      0, 0, 0, 0, 0, 0,
      0, 0, 0, 24]"
  by (simp add: pad_def be64_def encode_def abc_length replicate_numeral)

lemma abc_block1:
  "compress H0
     [1633837952, 0, 0, 0, 0, 0,
      0, 0, 0, 0, 0, 0,
      0, 0, 0, 24] =
   (3128432319, 2399260650, 1094795486, 1571693091, 2953011619, 2518121116, 3021012833, 4060091821)"
  by (simp add: compress_def K_def H0_def Sigma0_def Sigma1_def sigma0_def sigma1_def Ch_def
        Maj_def rotr_def add32_def)

lemma abc_digest:
  "hex (sha256 (encode (''abc''))) =
     ''ba7816bf8f01cfea414140de5dae2223b00361a396177a9cb410ff61f20015ad''"
  by (simp add: sha256_def abc_words abc_block1 wordBytes_def hex_def hexByte_def
        hexDigit_def char_of_nat_eq)

text \<open>The two files of the examples, serialized in the two orders.\<close>

lemma order1_length: "length (''https://ci.ender.zone/job/EssentialsX/EssX.jar|a.jar|https://ci.ender.zone/job/EssentialsX/EssX.jar|b.jar'') = 105"
  by simp

lemma order1_words:
  "be32 (pad (encode (''https://ci.ender.zone/job/EssentialsX/EssX.jar|a.jar|https://ci.ender.zone/job/EssentialsX/EssX.jar|b.jar''))) =
     [1752462448, 1933193007, 1667837541, 1852073330, 779775854, 1697606255,
      1647265139, 1936027252, 1767992435, 1479492979, 1935158890, 1634892897,
      778723698, 2087220340, 1886599727, 795044142, 1701733477, 1915648623,
      1852125034, 1868705605, 1936942446, 1953063276, 1935159109, 1936939054,
      1784771196, 1647209057, 1920991232, 0, 0, 0,
      0, 840]"
  by (simp add: pad_def be64_def encode_def order1_length replicate_numeral)

lemma order1_block1:
  "compress H0
     [1752462448, 1933193007, 1667837541, 1852073330, 779775854, 1697606255,
      1647265139, 1936027252, 1767992435, 1479492979, 1935158890, 1634892897,
      778723698, 2087220340, 1886599727, 795044142] =
   (1750326834, 846066695, 3890774256, 3535508182, 80367437, 1914708982, 1458230763, 3260161604)"
  by (simp add: compress_def K_def H0_def Sigma0_def Sigma1_def sigma0_def sigma1_def Ch_def
        Maj_def rotr_def add32_def)

lemma order1_block2:
  "compress (1750326834, 846066695, 3890774256, 3535508182, 80367437, 1914708982, 1458230763, 3260161604)
     [1701733477, 1915648623, 1852125034, 1868705605, 1936942446, 1953063276,
      1935159109, 1936939054, 1784771196, 1647209057, 1920991232, 0,
      0, 0, 0, 840] =
   (3423570761, 3803348598, 1125715774, 1422349898, 1052955899, 2705563192, 962761007, 1436790027)"
  by (simp add: compress_def K_def H0_def Sigma0_def Sigma1_def sigma0_def sigma1_def Ch_def
        Maj_def rotr_def add32_def)

lemma order1_digest:
  "hex (sha256 (encode (''https://ci.ender.zone/job/EssentialsX/EssX.jar|a.jar|https://ci.ender.zone/job/EssentialsX/EssX.jar|b.jar''))) =
     ''cc0f8b49e2b27e7643190f3e54c7564a3ec2d4fba1439e383962912f55a3ad0b''"
  by (simp add: sha256_def order1_words order1_block1 order1_block2 wordBytes_def hex_def hexByte_def
        hexDigit_def char_of_nat_eq)

lemma order2_length: "length (''https://ci.ender.zone/job/EssentialsX/EssX.jar|b.jar|https://ci.ender.zone/job/EssentialsX/EssX.jar|a.jar'') = 105"
  by simp

lemma order2_words:
  "be32 (pad (encode (''https://ci.ender.zone/job/EssentialsX/EssX.jar|b.jar|https://ci.ender.zone/job/EssentialsX/EssX.jar|a.jar''))) =
     [1752462448, 1933193007, 1667837541, 1852073330, 779775854, 1697606255,
      1647265139, 1936027252, 1767992435, 1479492979, 1935158890, 1634892898,
      778723698, 2087220340, 1886599727, 795044142, 1701733477, 1915648623,
      1852125034, 1868705605, 1936942446, 1953063276, 1935159109, 1936939054,
      1784771196, 1630431841, 1920991232, 0, 0, 0,
      0, 840]"
  by (simp add: pad_def be64_def encode_def order2_length replicate_numeral)

lemma order2_block1:
  "compress H0
     [1752462448, 1933193007, 1667837541, 1852073330, 779775854, 1697606255,
      1647265139, 1936027252, 1767992435, 1479492979, 1935158890, 1634892898,
      778723698, 2087220340, 1886599727, 795044142] =
   (1413331285, 4276125930, 4078860858, 823806123, 2552322161, 1554796877, 1198296275, 2688293612)"
  by (simp add: compress_def K_def H0_def Sigma0_def Sigma1_def sigma0_def sigma1_def Ch_def
        Maj_def rotr_def add32_def)

lemma order2_block2:
  "compress (1413331285, 4276125930, 4078860858, 823806123, 2552322161, 1554796877, 1198296275, 2688293612)
     [1701733477, 1915648623, 1852125034, 1868705605, 1936942446, 1953063276,
      1935159109, 1936939054, 1784771196, 1630431841, 1920991232, 0,
      0, 0, 0, 840] =
   (1313588456, 3679744045, 2047226909, 1941937937, 2846903622, 152845759, 623176735, 1956693906)"
  by (simp add: compress_def K_def H0_def Sigma0_def Sigma1_def sigma0_def sigma1_def Ch_def
        Maj_def rotr_def add32_def)

lemma order2_digest:
  "hex (sha256 (encode (''https://ci.ender.zone/job/EssentialsX/EssX.jar|b.jar|https://ci.ender.zone/job/EssentialsX/EssX.jar|a.jar''))) =
     ''4e4bc4e8db54702d7a06341d73bf9f11a9b04d46091c3dbf2524ec1f74a0c792''"
  by (simp add: sha256_def order2_words order2_block1 order2_block2 wordBytes_def hex_def hexByte_def
        hexDigit_def char_of_nat_eq)

subsection \<open>Claims C1 and C3: the cache key\<close>

lemma sortedFiles_same_url: "url x = url y \<Longrightarrow> sortedFiles P [x, y] = [x, y]"
  by (simp add: sortedFiles_def)

lemma filter_eq_replicate: "filter (\<lambda>x. x = y) xs = replicate (count (mset xs) y) y"
  by (induction xs) auto

text \<open>
  Where the key is invariant: under every permutation of a list in which two entries
  whose urls compare equal are the same entry.
\<close>

lemma sortedFiles_permutation:
  assumes m: "mset A = mset B"
    and d: "\<forall>x \<in> set A. \<forall>y \<in> set A.
              compare (localeCompare P) (url x) (url y) = Equiv \<longrightarrow> x = y"
  shows "sortedFiles P A = sortedFiles P B"
proof -
  let ?c = "key url (localeCompare P)"
  have s: "set A = set B" using m by (rule mset_eq_setD)
  have seg: "stable_segment ?c y xs = replicate (count (mset xs) y) y"
    if "y \<in> set A" "set xs = set A" for y xs
  proof -
    have "filter (\<lambda>x. compare ?c y x = Equiv) xs = filter (\<lambda>x. x = y) xs"
      using that d by (intro filter_cong) auto
    then show ?thesis by (simp add: filter_eq_replicate)
  qed
  have "sort ?c B = sort ?c A"
  proof (rule sort_eqI)
    show "mset B = mset (sort ?c A)" using m by simp
    show "sorted ?c (sort ?c A)" by simp
    fix y assume "y \<in> set B"
    then have y: "y \<in> set A" using s by simp
    have "stable_segment ?c y (sort ?c A) = stable_segment ?c y A"
      by (rule stable_sort)
    also have "\<dots> = replicate (count (mset A) y) y"
      using y by (rule seg) simp
    also have "\<dots> = stable_segment ?c y B"
      using seg [OF y, of B] s m by simp
    finally show "stable_segment ?c y B = stable_segment ?c y (sort ?c A)" by simp
  qed
  then show ?thesis by (simp add: sortedFiles_def)
qed

lemma cacheKey_permutation:
  assumes "mset A = mset B"
    and "\<forall>x \<in> set A. \<forall>y \<in> set A.
              compare (localeCompare P) (url x) (url y) = Equiv \<longrightarrow> x = y"
  shows "cacheKey P A = cacheKey P B"
  using sortedFiles_permutation [OF assms] by (simp add: cacheKey_def serialized_def)

lemma cacheKey_order1:
  "cacheKey P [\<lparr>url = jenkins, filename = ''a.jar''\<rparr>, \<lparr>url = jenkins, filename = ''b.jar''\<rparr>] =
     ''cc0f8b49e2b27e7643190f3e54c7564a3ec2d4fba1439e383962912f55a3ad0b''"
  using order1_digest
  by (simp add: cacheKey_def serialized_def sortedFiles_same_url generateCacheKey_def
        jenkins_def)

lemma cacheKey_order2:
  "cacheKey P [\<lparr>url = jenkins, filename = ''b.jar''\<rparr>, \<lparr>url = jenkins, filename = ''a.jar''\<rparr>] =
     ''4e4bc4e8db54702d7a06341d73bf9f11a9b04d46091c3dbf2524ec1f74a0c792''"
  using order2_digest
  by (simp add: cacheKey_def serialized_def sortedFiles_same_url generateCacheKey_def
        jenkins_def)

lemma cacheKey_joined:
  "cacheKey P [\<lparr>url = jenkins, filename = joined_name\<rparr>] =
   cacheKey P [\<lparr>url = jenkins, filename = ''a.jar''\<rparr>, \<lparr>url = jenkins, filename = ''b.jar''\<rparr>]"
  by (simp add: cacheKey_def serialized_def sortedFiles_same_url sortedFiles_def
        generateCacheKey_def joined_name_def)

text \<open>
  C1. The claim: two requests whose files hold the same (url, filename) pairs, in any
  order, get the same cache key. The code sorts by url only, and the sort is stable: two
  entries with the same url and different filenames stay in the order of the request.
  At the request for one URL under the names \<open>a.jar\<close> and \<open>b.jar\<close> and the request
  with the two entries swapped, the lists are permutations of each other and the keys
  are two different digests, on every platform. So, on the example platform, once the
  first request has filled the cache, the same request again is served from the cache
  without a download, and the swapped request downloads both files again.
\<close>

theorem cache_key_differs_for_swapped_entries:
  "mset [\<lparr>url = jenkins, filename = ''a.jar''\<rparr>, \<lparr>url = jenkins, filename = ''b.jar''\<rparr>] =
   mset [\<lparr>url = jenkins, filename = ''b.jar''\<rparr>, \<lparr>url = jenkins, filename = ''a.jar''\<rparr>] \<and>
   cacheKey P [\<lparr>url = jenkins, filename = ''a.jar''\<rparr>, \<lparr>url = jenkins, filename = ''b.jar''\<rparr>] =
     ''cc0f8b49e2b27e7643190f3e54c7564a3ec2d4fba1439e383962912f55a3ad0b'' \<and>
   cacheKey P [\<lparr>url = jenkins, filename = ''b.jar''\<rparr>, \<lparr>url = jenkins, filename = ''a.jar''\<rparr>] =
     ''4e4bc4e8db54702d7a06341d73bf9f11a9b04d46091c3dbf2524ec1f74a0c792'' \<and>
   cacheKey P [\<lparr>url = jenkins, filename = ''a.jar''\<rparr>, \<lparr>url = jenkins, filename = ''b.jar''\<rparr>] \<noteq>
   cacheKey P [\<lparr>url = jenkins, filename = ''b.jar''\<rparr>, \<lparr>url = jenkins, filename = ''a.jar''\<rparr>] \<and>
   fetched (fetch demo (stored (fetch demo Map.empty order1_request)) order1_request) = [] \<and>
   fetched (fetch demo (stored (fetch demo Map.empty order1_request)) order2_request) =
     [jenkins, jenkins]"
  by (simp add: run_defs order1_request_def order2_request_def cacheKey_order1
        cacheKey_order2)

text \<open>
  C3. The claim: distinct validated file sets have distinct serializations before the
  hash, so that their keys differ. The code joins url and filename, and entry and entry,
  with the same character, which a filename may hold. The list of the one entry whose
  filename is \<open>a.jar|URL|b.jar\<close> and the list of the two entries \<open>a.jar\<close> and
  \<open>b.jar\<close>, all with the url \<open>URL\<close>, are distinct, their serializations are one
  string, and their keys are equal on every platform. So, on the example platform, once
  the request for the two files has filled the cache, the request for the one file,
  whose archive would hold one member, is answered with the archive of the two, without
  a download.
\<close>

theorem cache_key_collides_through_separator:
  "[\<lparr>url = jenkins, filename = joined_name\<rparr>] \<noteq>
   [\<lparr>url = jenkins, filename = ''a.jar''\<rparr>, \<lparr>url = jenkins, filename = ''b.jar''\<rparr>] \<and>
   join ''|'' (serialized P [\<lparr>url = jenkins, filename = joined_name\<rparr>]) =
   join ''|'' (serialized P [\<lparr>url = jenkins, filename = ''a.jar''\<rparr>,
                            \<lparr>url = jenkins, filename = ''b.jar''\<rparr>]) \<and>
   cacheKey P [\<lparr>url = jenkins, filename = joined_name\<rparr>] =
   cacheKey P [\<lparr>url = jenkins, filename = ''a.jar''\<rparr>, \<lparr>url = jenkins, filename = ''b.jar''\<rparr>] \<and>
   body (result (fetch demo Map.empty joined_request)) = Binary [46] \<and>
   body (result (fetch demo (stored (fetch demo Map.empty order1_request)) joined_request)) =
     Binary [46, 46] \<and>
   fetched (fetch demo (stored (fetch demo Map.empty order1_request)) joined_request) = []"
proof -
  have "join ''|'' (serialized P [\<lparr>url = jenkins, filename = joined_name\<rparr>]) =
        join ''|'' (serialized P [\<lparr>url = jenkins, filename = ''a.jar''\<rparr>,
                                 \<lparr>url = jenkins, filename = ''b.jar''\<rparr>])"
    by (simp add: serialized_def sortedFiles_same_url sortedFiles_def joined_name_def)
  moreover
  have "body (result (fetch demo (stored (fetch demo Map.empty order1_request)) joined_request)) =
          Binary [46, 46] \<and>
        fetched (fetch demo (stored (fetch demo Map.empty order1_request)) joined_request) = []"
    by (simp add: run_defs order1_request_def joined_request_def cacheKey_joined)
  ultimately show ?thesis
    by (simp add: cacheKey_joined joined_run)
qed

end
